theory Spec2Isabelle
  imports
    Main
    "HOL-Library.FSet"
    "HOL-Library.AList"
    "HOL-Library.Char_ord"
    "HOL-Library.List_Lexorder"
begin

section \<open>Values and errors\<close>

text \<open>
  The registry of \<^verbatim>\<open>mike/versions.py\<close> stores JSON-compatible values and raises Python
  exceptions. A JSON value is a \<open>json\<close>; Python's \<^verbatim>\<open>None\<close> is \<open>JNull\<close>. A Python
  \<^verbatim>\<open>dict\<close> is an association list in insertion order with distinct keys. Floating point
  numbers are not part of the model.
\<close>

datatype json =
    JNull
  | JBool bool
  | JInt int
  | JStr string
  | JList "json list"
  | JDict "(string \<times> json) list"

text \<open>
  The texts of the \<^verbatim>\<open>ValueError\<close>s raised in \<^verbatim>\<open>versions.py\<close>, with the values that
  are formatted into them:
  \<^item> \<open>NotValid v kind\<close>: \<^verbatim>\<open>'{!r} is not a valid {}'\<close>;
  \<^item> \<open>Duplicated\<close>: \<^verbatim>\<open>'duplicated version and alias'\<close>;
  \<^item> \<open>VersionExists version component\<close>: \<^verbatim>\<open>"Version '..' already exists in component '..'"\<close>;
  \<^item> \<open>AliasIsVersion alias component\<close>:
    \<^verbatim>\<open>"Alias '..' is already specified as a version in component '..'"\<close>;
  \<^item> \<open>AliasExists alias owner component\<close>:
    \<^verbatim>\<open>"Alias '..' already exists for version '..' in component '..'"\<close>;
  \<^item> \<open>NotFound identifier component\<close>: \<^verbatim>\<open>"Version '..' not found in component '..'"\<close>;
  \<^item> \<open>VersionsNotFound missing component\<close>: \<^verbatim>\<open>"Versions [..] not found in component '..'"\<close>.
\<close>

datatype message =
    NotValid string string
  | Duplicated
  | VersionExists string string
  | AliasIsVersion string string
  | AliasExists string string string
  | NotFound string string
  | VersionsNotFound "string list" string

datatype error =
    ValueError message
  | KeyError string
  | TypeError
  | AttributeError
  | IndexError

text \<open>Python's truth value of a JSON value (\<^verbatim>\<open>if self.properties:\<close>).\<close>

fun truthy :: "json \<Rightarrow> bool" where
  "truthy JNull = False"
| "truthy (JBool b) = b"
| "truthy (JInt n) = (n \<noteq> 0)"
| "truthy (JStr s) = (s \<noteq> [])"
| "truthy (JList xs) = (xs \<noteq> [])"
| "truthy (JDict kvs) = (kvs \<noteq> [])"

section \<open>VersionInfo\<close>

text \<open>
  \<^verbatim>\<open>self.version\<close> is a \<^verbatim>\<open>LooseVersion\<close> of the library verspec, which the code reads
  through \<^verbatim>\<open>str(self.version)\<close> only (apart from sorting); the string of a
  \<^verbatim>\<open>LooseVersion\<close> is the string it was made from, so the field holds that string.
  \<^verbatim>\<open>self.aliases\<close> is a Python set of strings. Nothing in the code restricts the type of
  \<^verbatim>\<open>title\<close> and \<^verbatim>\<open>properties\<close>.
\<close>

record version_info =
  version :: string
  title :: json
  aliases :: "string fset"
  properties :: json

text \<open>
  \<^verbatim>\<open>_check_version(version, kind)\<close>: the regular expression of the source finds a
  backslash (character \<open>0x5C\<close>) or a slash anywhere in the string.
\<close>

definition is_separator :: "char \<Rightarrow> bool" where
  "is_separator c = (c = CHR 0x5C \<or> c = CHR ''/'')"

definition check_version :: "string \<Rightarrow> string \<Rightarrow> error + unit" where
  "check_version v kind =
     (if v = [] \<or> v = ''.'' \<or> v = ''..'' \<or> list_ex is_separator v
      then Inl (ValueError (NotValid v kind))
      else Inr ())"

text \<open>The loop \<^verbatim>\<open>for i in aliases: self._check_version(i, 'alias')\<close>.\<close>

fun check_aliases :: "string list \<Rightarrow> error + unit" where
  "check_aliases [] = Inr ()"
| "check_aliases (i # rest) =
     (case check_version i ''alias'' of
        Inl e \<Rightarrow> Inl e
      | Inr _ \<Rightarrow> check_aliases rest)"

text \<open>\<^verbatim>\<open>VersionInfo.__init__(self, version, title=None, aliases=[], properties=None)\<close>.\<close>

definition VersionInfo :: "string \<Rightarrow> json \<Rightarrow> string list \<Rightarrow> json \<Rightarrow> error + version_info" where
  "VersionInfo ver ttl als props =
     (case check_version ver ''version'' of
        Inl e \<Rightarrow> Inl e
      | Inr _ \<Rightarrow>
          (case check_aliases als of
             Inl e \<Rightarrow> Inl e
           | Inr _ \<Rightarrow>
               (if ver |\<in>| fset_of_list als then Inl (ValueError Duplicated)
                else Inr \<lparr>version = ver,
                          title = (if ttl = JNull then JStr ver else ttl),
                          aliases = fset_of_list als,
                          properties = props\<rparr>)))"

text \<open>
  \<^verbatim>\<open>VersionInfo.update(self, title=None, aliases=[])\<close> changes the object in place: the
  model returns what the call returns or raises, together with the object after the call.
  The title is assigned before the test for a duplicated version, as in the source.
\<close>

definition update :: "version_info \<Rightarrow> json \<Rightarrow> string list \<Rightarrow> (error + string fset) \<times> version_info" where
  "update self ttl als =
     (case check_aliases als of
        Inl e \<Rightarrow> (Inl e, self)
      | Inr _ \<Rightarrow>
          (let self1 = (if ttl = JNull then self else self\<lparr>title := ttl\<rparr>);
               aset = fset_of_list als
           in if version self1 |\<in>| aset then (Inl (ValueError Duplicated), self1)
              else (Inr (aset |-| aliases self1),
                    self1\<lparr>aliases := aliases self1 |\<union>| aset\<rparr>)))"

text \<open>
  \<^verbatim>\<open>VersionInfo.to_json\<close> returns a Python dict. \<^verbatim>\<open>list(self.aliases)\<close> enumerates the set
  in an order Python leaves open; the model takes the sorted one.
\<close>

definition to_json :: "version_info \<Rightarrow> (string \<times> json) list" where
  "to_json self =
     [(''version'', JStr (version self)),
      (''title'', title self),
      (''aliases'', JList (map JStr (sorted_list_of_fset (aliases self))))]
     @ (if truthy (properties self) then [(''properties'', properties self)] else [])"

text \<open>\<^verbatim>\<open>data[k]\<close> and \<^verbatim>\<open>data.get(k)\<close> on a JSON value.\<close>

definition getitem :: "json \<Rightarrow> string \<Rightarrow> error + json" where
  "getitem data k =
     (case data of
        JDict kvs \<Rightarrow> (case map_of kvs k of None \<Rightarrow> Inl (KeyError k) | Some v \<Rightarrow> Inr v)
      | _ \<Rightarrow> Inl TypeError)"

definition get :: "json \<Rightarrow> string \<Rightarrow> error + json" where
  "get data k =
     (case data of
        JDict kvs \<Rightarrow> (case map_of kvs k of None \<Rightarrow> Inr JNull | Some v \<Rightarrow> Inr v)
      | _ \<Rightarrow> Inl AttributeError)"

text \<open>
  The persisted format has a string under \<^verbatim>\<open>version\<close> and an array of strings under
  \<^verbatim>\<open>aliases\<close>. Documents of another shape are outside the model, which answers
  \<open>TypeError\<close> for them; Python accepts some of them (a number under \<^verbatim>\<open>version\<close>, a
  string under \<^verbatim>\<open>aliases\<close>). Nothing below reads such a document.
\<close>

fun as_str :: "json \<Rightarrow> error + string" where
  "as_str (JStr s) = Inr s"
| "as_str _ = Inl TypeError"

fun as_strs :: "json list \<Rightarrow> error + string list" where
  "as_strs [] = Inr []"
| "as_strs (x # xs) =
     (case as_str x of
        Inl e \<Rightarrow> Inl e
      | Inr s \<Rightarrow> (case as_strs xs of Inl e \<Rightarrow> Inl e | Inr ss \<Rightarrow> Inr (s # ss)))"

fun as_str_list :: "json \<Rightarrow> error + string list" where
  "as_str_list (JList xs) = as_strs xs"
| "as_str_list _ = Inl TypeError"

text \<open>
  \<^verbatim>\<open>VersionInfo.from_json(cls, data)\<close>: the four arguments are evaluated from left to
  right, then the constructor runs.
\<close>

definition from_json :: "json \<Rightarrow> error + version_info" where
  "from_json data =
     (case getitem data ''version'' of
        Inl e \<Rightarrow> Inl e
      | Inr jv \<Rightarrow>
     (case getitem data ''title'' of
        Inl e \<Rightarrow> Inl e
      | Inr jt \<Rightarrow>
     (case getitem data ''aliases'' of
        Inl e \<Rightarrow> Inl e
      | Inr ja \<Rightarrow>
     (case get data ''properties'' of
        Inl e \<Rightarrow> Inl e
      | Inr jp \<Rightarrow>
     (case as_str jv of
        Inl e \<Rightarrow> Inl e
      | Inr ver \<Rightarrow>
     (case as_str_list ja of
        Inl e \<Rightarrow> Inl e
      | Inr als \<Rightarrow> VersionInfo ver jt als jp))))))"

section \<open>Versions\<close>

text \<open>
  \<^verbatim>\<open>self._data\<close> maps a component name to that component's dict, which maps a version
  string to its \<^verbatim>\<open>VersionInfo\<close>. Every method changes \<^verbatim>\<open>self._data\<close> in place: the
  model of a method takes the dict and returns what the call returns or raises, together
  with the dict after the call. The two \<^verbatim>\<open>print\<close> calls of \<^verbatim>\<open>add\<close> are left out.
\<close>

type_synonym bucket = "(string \<times> version_info) list"

type_synonym versions = "(string \<times> bucket) list"

definition has_key :: "('k \<times> 'v) list \<Rightarrow> 'k \<Rightarrow> bool" where
  "has_key d k = (case map_of d k of None \<Rightarrow> False | Some _ \<Rightarrow> True)"

text \<open>
  Python looks an attribute up when the program runs. The objects met in the methods below
  are a component's dict, a \<^verbatim>\<open>VersionInfo\<close> and a string; only a \<^verbatim>\<open>VersionInfo\<close> has the
  attributes \<^verbatim>\<open>aliases\<close>, \<^verbatim>\<open>version\<close> and \<^verbatim>\<open>to_json\<close>, and reading one of them from
  another object raises \<^verbatim>\<open>AttributeError\<close>.
\<close>

datatype pyobj = Dict bucket | Info version_info | Str string

fun attr_aliases :: "pyobj \<Rightarrow> error + string fset" where
  "attr_aliases (Info i) = Inr (aliases i)"
| "attr_aliases _ = Inl AttributeError"

fun attr_version :: "pyobj \<Rightarrow> error + string" where
  "attr_version (Info i) = Inr (version i)"
| "attr_version _ = Inl AttributeError"

fun attr_to_json :: "pyobj \<Rightarrow> error + json" where
  "attr_to_json (Info i) = Inr (JDict (to_json i))"
| "attr_to_json _ = Inl AttributeError"

text \<open>\<^verbatim>\<open>self._data.items()\<close> and \<^verbatim>\<open>self._data.values()\<close>: the values are the components' dicts.\<close>

definition items :: "versions \<Rightarrow> (string \<times> pyobj) list" where
  "items d = map (\<lambda>(k, b). (k, Dict b)) d"

definition values_of :: "versions \<Rightarrow> pyobj list" where
  "values_of d = map (\<lambda>(k, b). Dict b) d"

subsection \<open>find\<close>

text \<open>The loop \<^verbatim>\<open>for k, v in self._data.items(): if identifier in v.aliases: return (k, identifier)\<close>.\<close>

fun find_items :: "(string \<times> pyobj) list \<Rightarrow> string \<Rightarrow> error + string list option" where
  "find_items [] identifier = Inr None"
| "find_items ((k, v) # rest) identifier =
     (case attr_aliases v of
        Inl e \<Rightarrow> Inl e
      | Inr als \<Rightarrow>
          if identifier |\<in>| als then Inr (Some [k, identifier])
          else find_items rest identifier)"

text \<open>
  \<^verbatim>\<open>find(self, identifier, strict=False)\<close>. A tuple of strings is a list, \<^verbatim>\<open>None\<close> is
  \<open>None\<close>.
\<close>

definition find :: "versions \<Rightarrow> string \<Rightarrow> bool \<Rightarrow> error + string list option" where
  "find d identifier strict =
     (if has_key d identifier then Inr (Some [identifier])
      else
        (case find_items (items d) identifier of
           Inl e \<Rightarrow> Inl e
         | Inr (Some key) \<Rightarrow> Inr (Some key)
         | Inr None \<Rightarrow> if strict then Inl (KeyError identifier) else Inr None))"

text \<open>
  A call of \<^verbatim>\<open>find\<close> with positional string arguments and, possibly, the keyword
  \<^verbatim>\<open>strict\<close>. Python binds the positional arguments to \<^verbatim>\<open>identifier\<close> and \<^verbatim>\<open>strict\<close>
  in this order: a second positional argument is the value of \<^verbatim>\<open>strict\<close>, where a string
  counts as true when it is not empty, and a call that gives \<^verbatim>\<open>strict\<close> both ways, or
  more than two positional arguments, or none, raises \<^verbatim>\<open>TypeError\<close>.
\<close>

fun find_call :: "versions \<Rightarrow> string list \<Rightarrow> bool option \<Rightarrow> error + string list option" where
  "find_call d [identifier] None = find d identifier False"
| "find_call d [identifier] (Some strict) = find d identifier strict"
| "find_call d [identifier, strict] None = find d identifier (strict \<noteq> [])"
| "find_call d args kw = Inl TypeError"

subsection \<open>Uniqueness of aliases\<close>

text \<open>
  The loop over \<^verbatim>\<open>aliases\<close>, with \<^verbatim>\<open>removed_aliases\<close> as accumulator. The call in the
  source is \<^verbatim>\<open>self.find(component, alias)\<close>.
\<close>

fun unique_loop ::
  "versions \<Rightarrow> string \<Rightarrow> string \<Rightarrow> bool \<Rightarrow> string list \<Rightarrow> string list list \<Rightarrow> error + string list list"
where
  "unique_loop d component ver ua [] removed = Inr removed"
| "unique_loop d component ver ua (alias # rest) removed =
     (case find_call d [component, alias] None of
        Inl e \<Rightarrow> Inl e
      | Inr None \<Rightarrow> unique_loop d component ver ua rest removed
      | Inr (Some []) \<Rightarrow> unique_loop d component ver ua rest removed
      | Inr (Some (k0 # ks)) \<Rightarrow>
          if k0 = ver then unique_loop d component ver ua rest removed
          else if ks = [] then Inl (ValueError (AliasIsVersion alias component))
          else if ua then unique_loop d component ver ua rest (removed @ [k0 # ks])
          else Inl (ValueError (AliasExists alias k0 component)))"

text \<open>
  \<^verbatim>\<open>_ensure_unique_aliases(self, component, version, aliases, update_aliases=False)\<close>.
  The call in the source is \<^verbatim>\<open>self.find(component, version)\<close>.
\<close>

definition ensure_unique_aliases ::
  "versions \<Rightarrow> string \<Rightarrow> string \<Rightarrow> string list \<Rightarrow> bool \<Rightarrow> error + string list list"
where
  "ensure_unique_aliases d component ver als ua =
     (case find_call d [component, ver] None of
        Inl e \<Rightarrow> Inl e
      | Inr (Some [k0, k1]) \<Rightarrow>
          if ua then unique_loop d component ver ua als [[k0, k1]]
          else Inl (ValueError (VersionExists ver component))
      | Inr _ \<Rightarrow> unique_loop d component ver ua als [])"

subsection \<open>add and update\<close>

text \<open>One step of the loop \<^verbatim>\<open>self._data[component][i[0]].aliases.remove(i[1])\<close>.\<close>

definition strip_alias :: "versions \<Rightarrow> string \<Rightarrow> string list \<Rightarrow> error + versions" where
  "strip_alias d component i =
     (case map_of d component of
        None \<Rightarrow> Inl (KeyError component)
      | Some b \<Rightarrow>
          (case i of
             [] \<Rightarrow> Inl IndexError
           | k0 # ks \<Rightarrow>
               (case map_of b k0 of
                  None \<Rightarrow> Inl (KeyError k0)
                | Some e \<Rightarrow>
                    (case ks of
                       [] \<Rightarrow> Inl IndexError
                     | k1 # _ \<Rightarrow>
                         if k1 |\<in>| aliases e
                         then Inr (AList.update component
                                (AList.update k0 (e\<lparr>aliases := aliases e |-| {|k1|}\<rparr>) b) d)
                         else Inl (KeyError k1)))))"

fun strip_aliases :: "versions \<Rightarrow> string \<Rightarrow> string list list \<Rightarrow> (error + unit) \<times> versions" where
  "strip_aliases d component [] = (Inr (), d)"
| "strip_aliases d component (i # rest) =
     (case strip_alias d component i of
        Inl e \<Rightarrow> (Inl e, d)
      | Inr d1 \<Rightarrow> strip_aliases d1 component rest)"

text \<open>
  The statement \<^verbatim>\<open>if v in self._data[component]: ... .update(title, aliases) else: ... =
  VersionInfo(version, title, aliases)\<close> of \<^verbatim>\<open>add\<close>.
\<close>

definition add_entry :: "versions \<Rightarrow> string \<Rightarrow> string \<Rightarrow> json \<Rightarrow> string list \<Rightarrow> (error + unit) \<times> versions" where
  "add_entry d component ver ttl als =
     (case map_of d component of
        None \<Rightarrow> (Inl (KeyError component), d)
      | Some b \<Rightarrow>
          (case map_of b ver of
             Some e \<Rightarrow>
               (case update e ttl als of
                  (Inl err, e1) \<Rightarrow> (Inl err, AList.update component (AList.update ver e1 b) d)
                | (Inr _, e1) \<Rightarrow> (Inr (), AList.update component (AList.update ver e1 b) d))
           | None \<Rightarrow>
               (case VersionInfo ver ttl als JNull of
                  Inl err \<Rightarrow> (Inl err, d)
                | Inr e \<Rightarrow> (Inr (), AList.update component (AList.update ver e b) d))))"

text \<open>\<^verbatim>\<open>add(self, component, version, title=None, aliases=[], update_aliases=False)\<close>.\<close>

definition add ::
  "versions \<Rightarrow> string \<Rightarrow> string \<Rightarrow> json \<Rightarrow> string list \<Rightarrow> bool \<Rightarrow> (error + version_info) \<times> versions"
where
  "add d component ver ttl als ua =
     (let d1 = (if has_key d component then d else AList.update component [] d) in
      case ensure_unique_aliases d1 component ver als ua of
        Inl e \<Rightarrow> (Inl e, d1)
      | Inr removed \<Rightarrow>
          (case add_entry d1 component ver ttl als of
             (Inl e, d2) \<Rightarrow> (Inl e, d2)
           | (Inr _, d2) \<Rightarrow>
               (case strip_aliases d2 component removed of
                  (Inl e, d3) \<Rightarrow> (Inl e, d3)
                | (Inr _, d3) \<Rightarrow>
                    (case map_of d3 component of
                       None \<Rightarrow> (Inl (KeyError component), d3)
                     | Some b \<Rightarrow>
                         (case map_of b ver of
                            None \<Rightarrow> (Inl (KeyError ver), d3)
                          | Some e \<Rightarrow> (Inr e, d3))))))"

text \<open>
  \<^verbatim>\<open>Versions.update(self, component, identifier, title=None, aliases=[],
  update_aliases=False)\<close>. The call in the source is
  \<^verbatim>\<open>self.find(component, identifier, strict=True)\<close>.
\<close>

definition update_versions ::
  "versions \<Rightarrow> string \<Rightarrow> string \<Rightarrow> json \<Rightarrow> string list \<Rightarrow> bool \<Rightarrow> (error + string fset) \<times> versions"
where
  "update_versions d component identifier ttl als ua =
     (case find_call d [component, identifier] (Some True) of
        Inl e \<Rightarrow> (Inl e, d)
      | Inr None \<Rightarrow> (Inl (ValueError (NotFound identifier component)), d)
      | Inr (Some []) \<Rightarrow> (Inl (ValueError (NotFound identifier component)), d)
      | Inr (Some (k0 # ks)) \<Rightarrow>
          (case ensure_unique_aliases d component k0 als ua of
             Inl e \<Rightarrow> (Inl e, d)
           | Inr removed \<Rightarrow>
               (case strip_aliases d component removed of
                  (Inl e, d1) \<Rightarrow> (Inl e, d1)
                | (Inr _, d1) \<Rightarrow>
                    (case map_of d1 component of
                       None \<Rightarrow> (Inl (KeyError component), d1)
                     | Some b \<Rightarrow>
                         (case map_of b k0 of
                            None \<Rightarrow> (Inl (KeyError k0), d1)
                          | Some e \<Rightarrow>
                              (case update e ttl als of
                                 (r, e1) \<Rightarrow>
                                   (r, AList.update component (AList.update k0 e1 b) d1)))))))"

subsection \<open>Removal of entries and aliases\<close>

text \<open>
  \<^verbatim>\<open>_remove_by_key(self, key)\<close>. In the second branch \<^verbatim>\<open>self._data[key[0]]\<close> is a
  component's dict, so reading its \<^verbatim>\<open>aliases\<close> raises and the set is never changed.
\<close>

definition remove_by_key :: "versions \<Rightarrow> string list \<Rightarrow> (error + pyobj) \<times> versions" where
  "remove_by_key d key =
     (case key of
        [k0] \<Rightarrow>
          (case map_of d k0 of
             None \<Rightarrow> (Inl (KeyError k0), d)
           | Some b \<Rightarrow> (Inr (Dict b), AList.delete k0 d))
      | [] \<Rightarrow> (Inl IndexError, d)
      | k0 # k1 # _ \<Rightarrow>
          (case map_of d k0 of
             None \<Rightarrow> (Inl (KeyError k0), d)
           | Some b \<Rightarrow>
               (case attr_aliases (Dict b) of
                  Inl e \<Rightarrow> (Inl e, d)
                | Inr als \<Rightarrow>
                    if k1 |\<in>| als then (Inr (Str k1), d) else (Inl (KeyError k1), d))))"

text \<open>
  A call of \<^verbatim>\<open>_remove_by_key\<close> with positional arguments, each a string, a tuple of
  strings or \<^verbatim>\<open>None\<close>. The method has the one parameter \<^verbatim>\<open>key\<close>: a call with another
  number of arguments raises \<^verbatim>\<open>TypeError\<close>, and so does \<^verbatim>\<open>len(None)\<close>. The characters
  of a string are its elements.
\<close>

datatype arg = AStr string | ATuple "string list" | ANone

fun call_remove_by_key :: "versions \<Rightarrow> arg list \<Rightarrow> (error + pyobj) \<times> versions" where
  "call_remove_by_key d [ATuple key] = remove_by_key d key"
| "call_remove_by_key d [AStr s] = remove_by_key d (map (\<lambda>c. [c]) s)"
| "call_remove_by_key d args = (Inl TypeError, d)"

fun key_arg :: "string list option \<Rightarrow> arg" where
  "key_arg None = ANone"
| "key_arg (Some key) = ATuple key"

text \<open>
  \<^verbatim>\<open>remove(self, component, identifier)\<close>. The calls in the source are
  \<^verbatim>\<open>self.find(component, identifier, strict=True)\<close> and
  \<^verbatim>\<open>self._remove_by_key(component, key)\<close>.
\<close>

definition remove :: "versions \<Rightarrow> string \<Rightarrow> string \<Rightarrow> (error + pyobj) \<times> versions" where
  "remove d component identifier =
     (case find_call d [component, identifier] (Some True) of
        Inl e \<Rightarrow> (Inl e, d)
      | Inr None \<Rightarrow> (Inl (ValueError (NotFound identifier component)), d)
      | Inr (Some []) \<Rightarrow> (Inl (ValueError (NotFound identifier component)), d)
      | Inr (Some (k0 # ks)) \<Rightarrow> call_remove_by_key d [AStr component, ATuple (k0 # ks)])"

text \<open>The comprehension \<^verbatim>\<open>[self.find(component, i, strict=True) for i in identifiers]\<close>.\<close>

fun find_all :: "versions \<Rightarrow> string \<Rightarrow> string list \<Rightarrow> error + string list option list" where
  "find_all d component [] = Inr []"
| "find_all d component (i # rest) =
     (case find_call d [component, i] (Some True) of
        Inl e \<Rightarrow> Inl e
      | Inr k \<Rightarrow>
          (case find_all d component rest of
             Inl e \<Rightarrow> Inl e
           | Inr ks \<Rightarrow> Inr (k # ks)))"

text \<open>The comprehension \<^verbatim>\<open>[self._remove_by_key(component, k) for k in keys]\<close>.\<close>

fun remove_keys :: "versions \<Rightarrow> string \<Rightarrow> string list option list \<Rightarrow> (error + pyobj list) \<times> versions" where
  "remove_keys d component [] = (Inr [], d)"
| "remove_keys d component (k # rest) =
     (case call_remove_by_key d [AStr component, key_arg k] of
        (Inl e, d1) \<Rightarrow> (Inl e, d1)
      | (Inr item, d1) \<Rightarrow>
          (case remove_keys d1 component rest of
             (Inl e, d2) \<Rightarrow> (Inl e, d2)
           | (Inr its, d2) \<Rightarrow> (Inr (item # its), d2)))"

text \<open>\<^verbatim>\<open>difference_update(self, component, identifiers)\<close>.\<close>

definition difference_update ::
  "versions \<Rightarrow> string \<Rightarrow> string list \<Rightarrow> (error + pyobj list) \<times> versions"
where
  "difference_update d component identifiers =
     (case find_all d component identifiers of
        Inl e \<Rightarrow> (Inl e, d)
      | Inr keys \<Rightarrow>
          if list_ex (\<lambda>k. k = None) keys
          then (Inl (ValueError (VersionsNotFound
                  (map fst (filter (\<lambda>(i, k). k = None) (zip identifiers keys))) component)), d)
          else remove_keys d component keys)"

subsection \<open>Iteration and JSON\<close>

text \<open>
  The match of \<^verbatim>\<open>__iter__\<close>'s regular expression at the start of \<open>s\<close>: an optional
  \<^verbatim>\<open>v\<close>, then a digit. The digits are the ASCII ones.
\<close>

definition is_digit :: "char \<Rightarrow> bool" where
  "is_digit c = List.member ''0123456789'' c"

fun re_match_release :: "string \<Rightarrow> bool" where
  "re_match_release [] = False"
| "re_match_release [c] = is_digit c"
| "re_match_release (c # c1 # cs) = (is_digit c \<or> (c = CHR ''v'' \<and> is_digit c1))"

text \<open>
  The function \<^verbatim>\<open>key(info)\<close> of \<^verbatim>\<open>__iter__\<close>. The second component of the key is the
  \<^verbatim>\<open>LooseVersion\<close>, held as its string.
\<close>

definition key :: "pyobj \<Rightarrow> error + (nat \<times> string)" where
  "key info =
     (case attr_version info of
        Inl e \<Rightarrow> Inl e
      | Inr ver \<Rightarrow> Inr (if re_match_release ver then 0 else 1, ver))"

text \<open>\<^verbatim>\<open>sorted\<close> computes the key of every element, in order, before it compares any.\<close>

fun keyed :: "pyobj list \<Rightarrow> error + ((nat \<times> string) \<times> pyobj) list" where
  "keyed [] = Inr []"
| "keyed (x # xs) =
     (case key x of
        Inl e \<Rightarrow> Inl e
      | Inr k \<Rightarrow>
          (case keyed xs of
             Inl e \<Rightarrow> Inl e
           | Inr ks \<Rightarrow> Inr ((k, x) # ks)))"

text \<open>
  The order of \<^verbatim>\<open>LooseVersion\<close> belongs to the library verspec: it is the parameter \<open>lt\<close>
  (is less than). Keys are pairs and compare lexicographically. \<^verbatim>\<open>sorted(.., reverse=True)\<close>
  is stable: elements with equal keys keep their order.
\<close>

definition key_less :: "(string \<Rightarrow> string \<Rightarrow> bool) \<Rightarrow> nat \<times> string \<Rightarrow> nat \<times> string \<Rightarrow> bool" where
  "key_less lt k1 k2 = (fst k1 < fst k2 \<or> (fst k1 = fst k2 \<and> lt (snd k1) (snd k2)))"

fun insert_desc ::
  "(string \<Rightarrow> string \<Rightarrow> bool) \<Rightarrow> (nat \<times> string) \<times> 'a \<Rightarrow> ((nat \<times> string) \<times> 'a) list \<Rightarrow> ((nat \<times> string) \<times> 'a) list"
where
  "insert_desc lt x [] = [x]"
| "insert_desc lt x (y # ys) =
     (if key_less lt (fst x) (fst y) then y # insert_desc lt x ys else x # y # ys)"

definition sorted_reverse :: "(string \<Rightarrow> string \<Rightarrow> bool) \<Rightarrow> ((nat \<times> string) \<times> 'a) list \<Rightarrow> 'a list" where
  "sorted_reverse lt kxs = map snd (foldr (insert_desc lt) kxs [])"

text \<open>\<^verbatim>\<open>__iter__(self)\<close>: \<^verbatim>\<open>sorted(self._data.values(), reverse=True, key=key)\<close>.\<close>

definition iter :: "(string \<Rightarrow> string \<Rightarrow> bool) \<Rightarrow> versions \<Rightarrow> error + pyobj list" where
  "iter lt d =
     (case keyed (values_of d) of
        Inl e \<Rightarrow> Inl e
      | Inr kxs \<Rightarrow> Inr (sorted_reverse lt kxs))"

text \<open>\<^verbatim>\<open>Versions.to_json(self)\<close>: \<^verbatim>\<open>[i.to_json() for i in iter(self)]\<close>.\<close>

fun to_json_all :: "pyobj list \<Rightarrow> error + json list" where
  "to_json_all [] = Inr []"
| "to_json_all (i # rest) =
     (case attr_to_json i of
        Inl e \<Rightarrow> Inl e
      | Inr j \<Rightarrow>
          (case to_json_all rest of
             Inl e \<Rightarrow> Inl e
           | Inr js \<Rightarrow> Inr (j # js)))"

definition versions_to_json :: "(string \<Rightarrow> string \<Rightarrow> bool) \<Rightarrow> versions \<Rightarrow> error + json" where
  "versions_to_json lt d =
     (case iter lt d of
        Inl e \<Rightarrow> Inl e
      | Inr objs \<Rightarrow>
          (case to_json_all objs of
             Inl e \<Rightarrow> Inl e
           | Inr js \<Rightarrow> Inr (JList js)))"

text \<open>
  Python's iteration over a JSON value (\<^verbatim>\<open>for version_data in versions\<close>): a list gives
  its elements, a dict its keys, a string its characters, and another value raises
  \<^verbatim>\<open>TypeError\<close>.
\<close>

fun json_iter :: "json \<Rightarrow> error + json list" where
  "json_iter (JList xs) = Inr xs"
| "json_iter (JDict kvs) = Inr (map (\<lambda>kv. JStr (fst kv)) kvs)"
| "json_iter (JStr s) = Inr (map (\<lambda>c. JStr [c]) s)"
| "json_iter _ = Inl TypeError"

text \<open>
  The inner loop of \<^verbatim>\<open>Versions.from_json\<close>. \<^verbatim>\<open>_ensure_unique_aliases\<close> receives the set
  \<^verbatim>\<open>version.aliases\<close> and iterates over it, here in sorted order; the list it returns is
  dropped.
\<close>

fun load_entries :: "versions \<Rightarrow> string \<Rightarrow> json list \<Rightarrow> error + versions" where
  "load_entries d component [] = Inr d"
| "load_entries d component (version_data # rest) =
     (case from_json version_data of
        Inl e \<Rightarrow> Inl e
      | Inr info \<Rightarrow>
          (case ensure_unique_aliases d component (version info)
                  (sorted_list_of_fset (aliases info)) False of
             Inl e \<Rightarrow> Inl e
           | Inr _ \<Rightarrow>
               (case map_of d component of
                  None \<Rightarrow> Inl (KeyError component)
                | Some b \<Rightarrow>
                    load_entries
                      (AList.update component (AList.update (version info) info b) d)
                      component rest)))"

text \<open>The outer loop \<^verbatim>\<open>for component, versions in data.items()\<close>.\<close>

fun load_components :: "versions \<Rightarrow> (string \<times> json) list \<Rightarrow> error + versions" where
  "load_components d [] = Inr d"
| "load_components d ((component, vs) # rest) =
     (let d1 = (if has_key d component then d else AList.update component [] d) in
      case json_iter vs of
        Inl e \<Rightarrow> Inl e
      | Inr entries \<Rightarrow>
          (case load_entries d1 component entries of
             Inl e \<Rightarrow> Inl e
           | Inr d2 \<Rightarrow> load_components d2 rest))"

text \<open>
  \<^verbatim>\<open>Versions.from_json(cls, data)\<close>: only a dict has the method \<^verbatim>\<open>items\<close>.
\<close>

definition versions_from_json :: "json \<Rightarrow> error + versions" where
  "versions_from_json data =
     (case data of
        JDict kvs \<Rightarrow> load_components [] kvs
      | _ \<Rightarrow> Inl AttributeError)"

text \<open>
  \<^verbatim>\<open>Versions.loads(registry.dumps())\<close>. \<^verbatim>\<open>dumps\<close> writes the value of \<^verbatim>\<open>to_json\<close> as text
  and \<^verbatim>\<open>loads\<close> reads the text back before it calls \<^verbatim>\<open>from_json\<close>; the library json
  reads back the value it wrote, so the text is left out.
\<close>

definition loads_dumps :: "(string \<Rightarrow> string \<Rightarrow> bool) \<Rightarrow> versions \<Rightarrow> error + versions" where
  "loads_dumps lt d =
     (case versions_to_json lt d of
        Inl e \<Rightarrow> Inl e
      | Inr j \<Rightarrow> versions_from_json j)"

subsection \<open>The invariant of a component\<close>

text \<open>
  The identifiers of a component and the aliases of each of its entries, in one list: the
  list has no duplicates exactly when no identifier is an alias and no alias belongs to two
  entries.
\<close>

definition names :: "bucket \<Rightarrow> string list" where
  "names b = map fst b @ concat (map (\<lambda>kv. sorted_list_of_fset (aliases (snd kv))) b)"

definition unique_names :: "bucket \<Rightarrow> bool" where
  "unique_names b = distinct (names b)"

subsection \<open>Entries the constructor can make\<close>

text \<open>
  What \<^verbatim>\<open>__init__\<close> checks of a \<^verbatim>\<open>VersionInfo\<close>: its version and its aliases pass
  \<^verbatim>\<open>_check_version\<close>, and its version is not one of its aliases. The aliases are taken
  in the order in which \<open>to_json\<close> lists them.
\<close>

definition well_formed :: "version_info \<Rightarrow> bool" where
  "well_formed e =
     (check_version (version e) ''version'' = Inr ()
      \<and> check_aliases (sorted_list_of_fset (aliases e)) = Inr ()
      \<and> version e |\<notin>| aliases e)"

section \<open>Properties of VersionInfo\<close>

subsection \<open>Auxiliary facts\<close>

lemma check_aliases_iff:
  "check_aliases als = Inr () \<longleftrightarrow> (\<forall>a\<in>set als. check_version a ''alias'' = Inr ())"
  by (induction als) (auto split: sum.splits)

lemma check_aliases_sorted:
  "check_aliases als = Inr () \<Longrightarrow>
   check_aliases (sorted_list_of_fset (fset_of_list als)) = Inr ()"
  by (simp add: check_aliases_iff fset_of_list.rep_eq)

lemma check_aliases_union:
  assumes "check_aliases (sorted_list_of_fset A) = Inr ()" and "check_aliases als = Inr ()"
  shows "check_aliases (sorted_list_of_fset (A |\<union>| fset_of_list als)) = Inr ()"
  using assms by (auto simp: check_aliases_iff fset_of_list.rep_eq)

lemma as_strs_map_JStr: "as_strs (map JStr xs) = Inr xs"
  by (induction xs) simp_all

text \<open>The constructor and \<open>update\<close> make and keep well-formed entries.\<close>

lemma VersionInfo_well_formed:
  "VersionInfo ver ttl als props = Inr e \<Longrightarrow> well_formed e"
  by (auto simp: VersionInfo_def well_formed_def check_aliases_sorted
      split: sum.splits if_splits)

lemma update_well_formed:
  "well_formed e \<Longrightarrow> update e ttl als = (Inr r, e1) \<Longrightarrow> well_formed e1"
  by (auto simp: update_def well_formed_def Let_def check_aliases_union
      split: sum.splits if_splits)

text \<open>Reading back what \<open>to_json\<close> wrote, for a well-formed entry.\<close>

lemma from_json_to_json:
  assumes "well_formed e"
  shows "from_json (JDict (to_json e)) =
           Inr (e\<lparr>title := (if title e = JNull then JStr (version e) else title e),
                  properties := (if truthy (properties e) then properties e else JNull)\<rparr>)"
  using assms
  by (simp add: from_json_def to_json_def getitem_def get_def as_strs_map_JStr
      VersionInfo_def well_formed_def)

subsection \<open>update\<close>

text \<open>
  C8. For every entry \<open>e\<close> and every call \<^verbatim>\<open>e.update(title, aliases)\<close> in which each alias
  is valid and the version string of \<open>e\<close> is not among the aliases: the call succeeds, the
  title becomes \<^verbatim>\<open>title\<close> unless that is \<^verbatim>\<open>None\<close>, in which case it stays, the alias
  set becomes the union of the old one with \<^verbatim>\<open>aliases\<close>, and the call returns the
  aliases that were not in the old set. Version and properties stay as they were.
\<close>

theorem update_unions_aliases:
  assumes "\<forall>a\<in>set als. check_version a ''alias'' = Inr ()"
    and "version e |\<notin>| fset_of_list als"
  shows "update e ttl als =
           (Inr (fset_of_list als |-| aliases e),
            e\<lparr>title := (if ttl = JNull then title e else ttl),
              aliases := aliases e |\<union>| fset_of_list als\<rparr>)"
proof -
  from assms(1) have "check_aliases als = Inr ()"
    by (simp add: check_aliases_iff)
  with assms(2) show ?thesis
    by (simp add: update_def Let_def)
qed

theorem update_unions_aliases_witness:
  "update \<lparr>version = ''1.0'', title = JStr ''1.0'', aliases = {|''latest''|}, properties = JNull\<rparr>
     (JStr ''1.0.1'') [''stable'', ''latest''] =
   (Inr {|''stable''|},
    \<lparr>version = ''1.0'', title = JStr ''1.0.1'', aliases = {|''latest'', ''stable''|},
       properties = JNull\<rparr>)
   \<and> update \<lparr>version = ''1.0'', title = JStr ''1.0'', aliases = {|''latest''|}, properties = JNull\<rparr>
     JNull [''stable'', ''latest''] =
   (Inr {|''stable''|},
    \<lparr>version = ''1.0'', title = JStr ''1.0'', aliases = {|''latest'', ''stable''|},
       properties = JNull\<rparr>)"
proof -
  let ?e = "\<lparr>version = ''1.0'', title = JStr ''1.0'', aliases = {|''latest''|}, properties = JNull\<rparr>"
  have valid: "\<forall>a\<in>set [''stable'', ''latest'']. check_version a ''alias'' = Inr ()"
    by (simp add: check_version_def is_separator_def)
  have fresh: "version ?e |\<notin>| fset_of_list [''stable'', ''latest'']"
    by simp
  show ?thesis
    using update_unions_aliases [OF valid fresh, of "JStr ''1.0.1''"]
      update_unions_aliases [OF valid fresh, of JNull]
    by auto
qed

text \<open>
  C9. The claim: a call \<^verbatim>\<open>e.update(title, aliases)\<close> with the version string of \<open>e\<close>
  among the aliases fails and leaves \<open>e\<close> as it was, its title too. The code:
  \<^verbatim>\<open>VersionInfo('1.0').update('1.0.1', ['1.0'])\<close> raises, and the title of the entry is
  \<^verbatim>\<open>'1.0.1'\<close> afterwards, since the title is assigned before the test for the duplicate.
\<close>

theorem update_duplicate_overwrites_title:
  "update \<lparr>version = ''1.0'', title = JStr ''1.0'', aliases = {||}, properties = JNull\<rparr>
     (JStr ''1.0.1'') [''1.0''] =
   (Inl (ValueError Duplicated),
    \<lparr>version = ''1.0'', title = JStr ''1.0.1'', aliases = {||}, properties = JNull\<rparr>)
   \<and> \<lparr>version = ''1.0'', title = JStr ''1.0.1'', aliases = {||}, properties = JNull\<rparr>
     \<noteq> \<lparr>version = ''1.0'', title = JStr ''1.0'', aliases = {||}, properties = JNull\<rparr>"
  by (simp add: update_def check_version_def is_separator_def)

text \<open>
  The other way in which \<open>update\<close> fails leaves the entry as it was: with an alias that is
  not valid, the call raises before it assigns anything.
\<close>

lemma update_invalid_alias_unchanged:
  "check_aliases als = Inl err \<Longrightarrow> update e ttl als = (Inl err, e)"
  by (simp add: update_def)

subsection \<open>JSON of an entry\<close>

text \<open>
  C10. The dict of \<open>to_json\<close> has the key \<^verbatim>\<open>properties\<close> exactly when the properties are
  true in Python's sense. Two entries that differ in their properties only, both false
  (\<^verbatim>\<open>None\<close>, \<^verbatim>\<open>{}\<close>, \<^verbatim>\<open>[]\<close>, \<^verbatim>\<open>""\<close>, \<^verbatim>\<open>0\<close>, \<^verbatim>\<open>False\<close>), give the same dict, and
  \<open>from_json\<close> of that dict succeeds with properties \<^verbatim>\<open>None\<close>.
\<close>

theorem to_json_omits_falsy_properties:
  assumes "well_formed e" and "\<not> truthy p" and "\<not> truthy q"
  shows "has_key (to_json e) ''properties'' = truthy (properties e)
       \<and> to_json (e\<lparr>properties := p\<rparr>) = to_json (e\<lparr>properties := q\<rparr>)
       \<and> from_json (JDict (to_json (e\<lparr>properties := p\<rparr>))) =
           Inr (e\<lparr>title := (if title e = JNull then JStr (version e) else title e),
                  properties := JNull\<rparr>)"
proof -
  have "has_key (to_json e) ''properties'' = truthy (properties e)"
    by (simp add: has_key_def to_json_def)
  moreover from assms(2,3)
  have "to_json (e\<lparr>properties := p\<rparr>) = to_json (e\<lparr>properties := q\<rparr>)"
    by (simp add: to_json_def)
  moreover have "well_formed (e\<lparr>properties := p\<rparr>)"
    using assms(1) by (simp add: well_formed_def)
  then have "from_json (JDict (to_json (e\<lparr>properties := p\<rparr>))) =
           Inr (e\<lparr>title := (if title e = JNull then JStr (version e) else title e),
                  properties := JNull\<rparr>)"
    using assms(2) by (simp add: from_json_to_json)
  ultimately show ?thesis by simp
qed

theorem to_json_omits_falsy_properties_witness:
  "has_key (to_json \<lparr>version = ''1.0'', title = JStr ''1.0.1'', aliases = {|''latest''|},
                      properties = JDict [(''k'', JInt 1)]\<rparr>) ''properties''
   \<and> to_json \<lparr>version = ''1.0'', title = JStr ''1.0.1'', aliases = {|''latest''|},
               properties = JInt 0\<rparr>
     = to_json \<lparr>version = ''1.0'', title = JStr ''1.0.1'', aliases = {|''latest''|},
                 properties = JDict []\<rparr>
   \<and> from_json (JDict (to_json \<lparr>version = ''1.0'', title = JStr ''1.0.1'',
                                 aliases = {|''latest''|}, properties = JInt 0\<rparr>))
     = Inr \<lparr>version = ''1.0'', title = JStr ''1.0.1'', aliases = {|''latest''|},
            properties = JNull\<rparr>"
proof -
  let ?e = "\<lparr>version = ''1.0'', title = JStr ''1.0.1'', aliases = {|''latest''|},
             properties = JDict [(''k'', JInt 1)]\<rparr>"
  have wf: "well_formed ?e"
    by code_simp
  have p: "\<not> truthy (JInt 0)" and q: "\<not> truthy (JDict [])"
    by simp_all
  note t = to_json_omits_falsy_properties [OF wf p q]
  have a: "has_key (to_json ?e) ''properties''"
    using t [THEN conjunct1] by simp
  have b: "to_json \<lparr>version = ''1.0'', title = JStr ''1.0.1'', aliases = {|''latest''|},
                     properties = JInt 0\<rparr>
           = to_json \<lparr>version = ''1.0'', title = JStr ''1.0.1'', aliases = {|''latest''|},
                       properties = JDict []\<rparr>"
    using t [THEN conjunct2, THEN conjunct1] by simp
  have c: "from_json (JDict (to_json \<lparr>version = ''1.0'', title = JStr ''1.0.1'',
                                       aliases = {|''latest''|}, properties = JInt 0\<rparr>))
           = Inr \<lparr>version = ''1.0'', title = JStr ''1.0.1'', aliases = {|''latest''|},
                  properties = JNull\<rparr>"
    using t [THEN conjunct2, THEN conjunct2] by simp
  from a b c show ?thesis
    by blast
qed

section \<open>Properties of Versions\<close>

subsection \<open>Auxiliary facts\<close>

text \<open>
  \<open>find\<close> looks its first argument up among the names of the components. The callers in
  \<^verbatim>\<open>Versions\<close> pass the component first and the identifier second, so the identifier
  arrives as \<^verbatim>\<open>strict\<close>.
\<close>

lemma find_has_key:
  "has_key d identifier \<Longrightarrow> find d identifier strict = Inr (Some [identifier])"
  by (simp add: find_def)

lemma find_call_component:
  "find_call d [component, identifier] None =
     (if has_key d component then Inr (Some [component])
      else if d = [] then (if identifier = [] then Inr None else Inl (KeyError component))
      else Inl AttributeError)"
proof (cases d)
  case Nil
  then show ?thesis by (simp add: find_def has_key_def items_def)
next
  case (Cons kb rest)
  then show ?thesis by (cases kb) (simp add: find_def items_def)
qed

lemma find_call_strict_keyword:
  "find_call d [component, identifier] (Some strict) = Inl TypeError"
  by simp

lemma has_key_update: "has_key (AList.update k v d) k"
  by (simp add: has_key_def update_conv')

text \<open>
  \<open>add\<close> with an alias raises whenever the component is not named like the version, with
  and without \<^verbatim>\<open>update_aliases\<close>.
\<close>

lemma add_alias_other_component:
  assumes "component \<noteq> ver"
  shows "fst (add d component ver ttl (alias # rest) ua) =
           Inl (ValueError (AliasIsVersion alias component))"
proof -
  define d1 where "d1 = (if has_key d component then d else AList.update component [] d)"
  have k: "has_key d1 component"
    by (simp add: d1_def has_key_update)
  have "ensure_unique_aliases d1 component ver (alias # rest) ua =
          Inl (ValueError (AliasIsVersion alias component))"
    using k assms by (simp add: ensure_unique_aliases_def find_has_key)
  then show ?thesis
    by (simp add: add_def d1_def [symmetric] Let_def)
qed

text \<open>\<^verbatim>\<open>Versions.update\<close> and a bulk removal of anything raise \<^verbatim>\<open>TypeError\<close>.\<close>

lemma update_versions_raises:
  "update_versions d component identifier ttl als ua = (Inl TypeError, d)"
  by (simp add: update_versions_def)

lemma difference_update_nonempty:
  "identifiers \<noteq> [] \<Longrightarrow> difference_update d component identifiers = (Inl TypeError, d)"
  by (cases identifiers) (simp_all add: difference_update_def)

text \<open>Iteration over a registry that has a component raises.\<close>

lemma iter_nonempty:
  "d \<noteq> [] \<Longrightarrow> iter lt d = Inl AttributeError"
  by (cases d) (auto simp: iter_def values_of_def key_def)

subsection \<open>The invariant\<close>

text \<open>
  C1. The claim: after any sequence of \<^verbatim>\<open>add\<close>, \<^verbatim>\<open>update\<close> and \<^verbatim>\<open>remove\<close> from the
  empty registry, no string of a component is both an identifier and an alias, and no
  alias belongs to two entries. The code: \<^verbatim>\<open>add('1.0', '1.0', aliases=['latest'])\<close> and
  then \<^verbatim>\<open>add('1.0', 'latest')\<close> both succeed, and \<^verbatim>\<open>latest\<close> is then an identifier of
  the component \<^verbatim>\<open>1.0\<close> and an alias of its entry \<^verbatim>\<open>1.0\<close>.
\<close>

theorem add_breaks_unique_names:
  "add [] ''1.0'' ''1.0'' JNull [''latest''] False =
     (Inr \<lparr>version = ''1.0'', title = JStr ''1.0'', aliases = {|''latest''|}, properties = JNull\<rparr>,
      [(''1.0'',
        [(''1.0'', \<lparr>version = ''1.0'', title = JStr ''1.0'', aliases = {|''latest''|},
                     properties = JNull\<rparr>)])])
   \<and> add [(''1.0'',
        [(''1.0'', \<lparr>version = ''1.0'', title = JStr ''1.0'', aliases = {|''latest''|},
                     properties = JNull\<rparr>)])]
       ''1.0'' ''latest'' JNull [] False =
     (Inr \<lparr>version = ''latest'', title = JStr ''latest'', aliases = {||}, properties = JNull\<rparr>,
      [(''1.0'',
        [(''1.0'', \<lparr>version = ''1.0'', title = JStr ''1.0'', aliases = {|''latest''|},
                     properties = JNull\<rparr>),
         (''latest'', \<lparr>version = ''latest'', title = JStr ''latest'', aliases = {||},
                        properties = JNull\<rparr>)])])
   \<and> \<not> unique_names
        [(''1.0'', \<lparr>version = ''1.0'', title = JStr ''1.0'', aliases = {|''latest''|},
                     properties = JNull\<rparr>),
         (''latest'', \<lparr>version = ''latest'', title = JStr ''latest'', aliases = {||},
                        properties = JNull\<rparr>)]"
  by code_simp

subsection \<open>Moving an alias\<close>

text \<open>
  C3. The claim: where the component has the entry \<^verbatim>\<open>1.0\<close> with the alias \<^verbatim>\<open>latest\<close>,
  \<^verbatim>\<open>add(c, '2.0', aliases=['latest'], update_aliases=True)\<close> makes \<^verbatim>\<open>latest\<close> an alias
  of \<^verbatim>\<open>2.0\<close> and takes it from \<^verbatim>\<open>1.0\<close>. The code: \<^verbatim>\<open>add('1.0', '1.0',
  aliases=['latest'])\<close> on the empty registry gives such a component, named \<^verbatim>\<open>1.0\<close>, and
  \<^verbatim>\<open>add('1.0', '2.0', aliases=['latest'], update_aliases=True)\<close> then raises
  \<^verbatim>\<open>ValueError\<close>: the alias stays with \<^verbatim>\<open>1.0\<close> and there is no entry \<^verbatim>\<open>2.0\<close>.
\<close>

theorem add_reassign_raises_ValueError:
  "add [] ''1.0'' ''1.0'' JNull [''latest''] False =
     (Inr \<lparr>version = ''1.0'', title = JStr ''1.0'', aliases = {|''latest''|}, properties = JNull\<rparr>,
      [(''1.0'',
        [(''1.0'', \<lparr>version = ''1.0'', title = JStr ''1.0'', aliases = {|''latest''|},
                     properties = JNull\<rparr>)])])
   \<and> add [(''1.0'',
         [(''1.0'', \<lparr>version = ''1.0'', title = JStr ''1.0'', aliases = {|''latest''|},
                      properties = JNull\<rparr>)])]
       ''1.0'' ''2.0'' JNull [''latest''] True =
     (Inl (ValueError (AliasIsVersion ''latest'' ''1.0'')),
      [(''1.0'',
        [(''1.0'', \<lparr>version = ''1.0'', title = JStr ''1.0'', aliases = {|''latest''|},
                     properties = JNull\<rparr>)])])"
  by code_simp

subsection \<open>Lookup\<close>

text \<open>
  C5. The claim: \<^verbatim>\<open>find(component, identifier)\<close> returns \<^verbatim>\<open>(identifier,)\<close> for an
  identifier of the component, \<^verbatim>\<open>(owner, identifier)\<close> for an alias, and \<^verbatim>\<open>None\<close>
  otherwise. The code: \<open>find\<close> has no parameter for the component; in the registry with
  the component \<^verbatim>\<open>docs\<close> and its entry \<^verbatim>\<open>1.0\<close> with the alias \<^verbatim>\<open>latest\<close>, the calls
  \<^verbatim>\<open>find('docs', '1.0')\<close>, \<^verbatim>\<open>find('docs', 'latest')\<close> and \<^verbatim>\<open>find('docs', '2.0')\<close> all
  return \<^verbatim>\<open>('docs',)\<close>.
\<close>

theorem find_returns_component:
  "find_call
     [(''docs'',
       [(''1.0'', \<lparr>version = ''1.0'', title = JStr ''1.0'', aliases = {|''latest''|},
                    properties = JNull\<rparr>)])]
     [''docs'', ''1.0''] None = Inr (Some [''docs''])
   \<and> find_call
     [(''docs'',
       [(''1.0'', \<lparr>version = ''1.0'', title = JStr ''1.0'', aliases = {|''latest''|},
                    properties = JNull\<rparr>)])]
     [''docs'', ''latest''] None = Inr (Some [''docs''])
   \<and> find_call
     [(''docs'',
       [(''1.0'', \<lparr>version = ''1.0'', title = JStr ''1.0'', aliases = {|''latest''|},
                    properties = JNull\<rparr>)])]
     [''docs'', ''2.0''] None = Inr (Some [''docs''])"
  by code_simp

subsection \<open>Removal\<close>

text \<open>
  C6. The claim: \<^verbatim>\<open>remove(component, identifier)\<close> deletes the entry of a primary
  identifier and returns it, strips an alias from its owner and returns the owner, and
  fails with a not-found error otherwise. The code: \<^verbatim>\<open>remove\<close> calls
  \<^verbatim>\<open>self.find(component, identifier, strict=True)\<close>, which gives \<^verbatim>\<open>strict\<close> two values,
  so every call raises \<^verbatim>\<open>TypeError\<close> and leaves the registry as it was.
\<close>

theorem remove_raises_TypeError:
  "remove d component identifier = (Inl TypeError, d)"
  by (simp add: remove_def)

text \<open>
  C4. The claim: a bulk removal with an identifier that does not resolve fails with a
  not-found error that names every such identifier, and removes nothing. The code:
  \<^verbatim>\<open>difference_update('docs', ['1.0', 'nonexistent'])\<close> raises \<^verbatim>\<open>TypeError\<close>, from the
  first call of \<open>find\<close>, and names no identifier; the registry stays as it was.
\<close>

theorem difference_update_raises_TypeError:
  "difference_update
     [(''docs'',
       [(''1.0'', \<lparr>version = ''1.0'', title = JStr ''1.0'', aliases = {||},
                    properties = JNull\<rparr>)])]
     ''docs'' [''1.0'', ''nonexistent''] =
   (Inl TypeError,
    [(''docs'',
      [(''1.0'', \<lparr>version = ''1.0'', title = JStr ''1.0'', aliases = {||},
                   properties = JNull\<rparr>)])])"
  by code_simp

subsection \<open>Iteration\<close>

text \<open>
  C7. The claim: iteration yields every entry of every component, newest first; after
  \<^verbatim>\<open>2.0\<close>, \<^verbatim>\<open>1.0\<close> and \<^verbatim>\<open>dev\<close> were added to one component it yields \<^verbatim>\<open>dev\<close>,
  \<^verbatim>\<open>2.0\<close>, \<^verbatim>\<open>1.0\<close>. The code: the three calls of \<open>add\<close> succeed, and iteration over
  the registry they leave raises \<^verbatim>\<open>AttributeError\<close>, whatever the order of versions is:
  the key function reads \<^verbatim>\<open>info.version\<close> from the component's dict.
\<close>

theorem iter_raises_AttributeError:
  "add [] ''docs'' ''2.0'' JNull [] False =
     (Inr \<lparr>version = ''2.0'', title = JStr ''2.0'', aliases = {||}, properties = JNull\<rparr>,
      [(''docs'',
        [(''2.0'', \<lparr>version = ''2.0'', title = JStr ''2.0'', aliases = {||}, properties = JNull\<rparr>)])])
   \<and> add [(''docs'',
        [(''2.0'', \<lparr>version = ''2.0'', title = JStr ''2.0'', aliases = {||}, properties = JNull\<rparr>)])]
       ''docs'' ''1.0'' JNull [] False =
     (Inr \<lparr>version = ''1.0'', title = JStr ''1.0'', aliases = {||}, properties = JNull\<rparr>,
      [(''docs'',
        [(''2.0'', \<lparr>version = ''2.0'', title = JStr ''2.0'', aliases = {||}, properties = JNull\<rparr>),
         (''1.0'', \<lparr>version = ''1.0'', title = JStr ''1.0'', aliases = {||}, properties = JNull\<rparr>)])])
   \<and> add [(''docs'',
        [(''2.0'', \<lparr>version = ''2.0'', title = JStr ''2.0'', aliases = {||}, properties = JNull\<rparr>),
         (''1.0'', \<lparr>version = ''1.0'', title = JStr ''1.0'', aliases = {||}, properties = JNull\<rparr>)])]
       ''docs'' ''dev'' JNull [] False =
     (Inr \<lparr>version = ''dev'', title = JStr ''dev'', aliases = {||}, properties = JNull\<rparr>,
      [(''docs'',
        [(''2.0'', \<lparr>version = ''2.0'', title = JStr ''2.0'', aliases = {||}, properties = JNull\<rparr>),
         (''1.0'', \<lparr>version = ''1.0'', title = JStr ''1.0'', aliases = {||}, properties = JNull\<rparr>),
         (''dev'', \<lparr>version = ''dev'', title = JStr ''dev'', aliases = {||}, properties = JNull\<rparr>)])])
   \<and> iter lt
       [(''docs'',
        [(''2.0'', \<lparr>version = ''2.0'', title = JStr ''2.0'', aliases = {||}, properties = JNull\<rparr>),
         (''1.0'', \<lparr>version = ''1.0'', title = JStr ''1.0'', aliases = {||}, properties = JNull\<rparr>),
         (''dev'', \<lparr>version = ''dev'', title = JStr ''dev'', aliases = {||}, properties = JNull\<rparr>)])]
     = Inl AttributeError"
  by code_simp

subsection \<open>Serialization of the registry\<close>

text \<open>
  C2. The claim: \<^verbatim>\<open>Versions.loads(registry.dumps())\<close> succeeds and gives back an equal
  registry. The code: every round trip raises \<^verbatim>\<open>AttributeError\<close>. With a component in
  the registry, \<^verbatim>\<open>__iter__\<close> reads \<^verbatim>\<open>info.version\<close> from the component's dict; an empty
  registry is written as the empty list, and \<^verbatim>\<open>from_json\<close> calls \<^verbatim>\<open>items\<close> on that
  list.
\<close>

theorem loads_dumps_raises_AttributeError:
  "loads_dumps lt d = Inl AttributeError"
proof (cases d)
  case Nil
  then show ?thesis
    by (simp add: loads_dumps_def versions_to_json_def iter_def values_of_def
        sorted_reverse_def versions_from_json_def)
next
  case (Cons kb rest)
  then show ?thesis
    by (cases kb) (simp add: loads_dumps_def versions_to_json_def iter_def values_of_def key_def)
qed

end
